theory Spec2Isabelle
  imports Main "HOL-Library.Sublist"
begin

section \<open>The error-domain descriptor and the Result value\<close>

text \<open>
  \<^verbatim>\<open>Result<ErrorTrait>\<close> of \<^verbatim>\<open>result/Result.hpp\<close> is a class template over a trait
  class. The trait supplies the type \<^verbatim>\<open>Code\<close> (the type parameter \<open>'c\<close> here), the
  constants \<^verbatim>\<open>success\<close> and \<^verbatim>\<open>defaultError\<close>, and the static function
  \<^verbatim>\<open>codeToString\<close>. The header also applies \<^verbatim>\<open>static_cast<int>\<close> to a code; that
  conversion belongs to the code type, so it travels with the trait as \<open>codeToInt\<close>.
  A template instantiation is a function applied to the trait value.
\<close>

record 'c ErrorTrait =
  success :: 'c
  defaultError :: 'c
  codeToString :: "'c \<Rightarrow> string"
  codeToInt :: "'c \<Rightarrow> int"

text \<open>The two data members \<^verbatim>\<open>_errorCode\<close> and \<^verbatim>\<open>_message\<close>.\<close>

record 'c Result =
  errorCode :: 'c
  message :: string

subsection \<open>Constructors, accessors, comparison\<close>

text \<open>
  \<^verbatim>\<open>explicit Result(Code code = ErrorTrait::defaultError) : _errorCode(code) {}\<close>
  The message member is default-constructed, hence empty. The default argument is the
  second definition.
\<close>

definition Result_ctor :: "'c \<Rightarrow> 'c Result" where
  "Result_ctor code = \<lparr>errorCode = code, message = []\<rparr>"

definition Result_ctor_default :: "'c ErrorTrait \<Rightarrow> 'c Result" where
  "Result_ctor_default T = Result_ctor (defaultError T)"

definition getErrorCode :: "'c Result \<Rightarrow> 'c" where
  "getErrorCode r = errorCode r"

definition getMessage :: "'c Result \<Rightarrow> string" where
  "getMessage r = message r"

text \<open>\<^verbatim>\<open>operator==\<close>: \<^verbatim>\<open>return _errorCode == toCompare._errorCode;\<close>\<close>

definition op_eq :: "'c Result \<Rightarrow> 'c Result \<Rightarrow> bool" where
  "op_eq r toCompare \<longleftrightarrow> errorCode r = errorCode toCompare"

definition isSuccess :: "'c ErrorTrait \<Rightarrow> 'c Result \<Rightarrow> bool" where
  "isSuccess T r \<longleftrightarrow> errorCode r = success T"

definition isFailure :: "'c ErrorTrait \<Rightarrow> 'c Result \<Rightarrow> bool" where
  "isFailure T r \<longleftrightarrow> \<not> isSuccess T r"

text \<open>The conversion operator \<^verbatim>\<open>operator typename ErrorTrait::Code() const\<close>.\<close>

definition to_Code :: "'c Result \<Rightarrow> 'c" where
  "to_Code r = errorCode r"

subsection \<open>Stream insertion of the values the header writes\<close>

text \<open>
  \<^verbatim>\<open>ss << static_cast<int>(_errorCode)\<close> on a fresh \<^verbatim>\<open>std::ostringstream\<close> writes the
  integer in base ten, with a minus sign for a negative value and no padding.
\<close>

definition digit_char :: "nat \<Rightarrow> char" where
  "digit_char d = ''0123456789'' ! d"

fun dec_of_nat :: "nat \<Rightarrow> string" where
  "dec_of_nat n =
     (if n < 10 then [digit_char n] else dec_of_nat (n div 10) @ [digit_char (n mod 10)])"

declare dec_of_nat.simps [simp del]

definition insert_int :: "int \<Rightarrow> string" where
  "insert_int i = (if i < 0 then CHR ''-'' # dec_of_nat (nat (- i)) else dec_of_nat (nat i))"

text \<open>
  Inserting a \<^verbatim>\<open>std::string\<close> writes all its characters; inserting a character array
  or \<^verbatim>\<open>const char *\<close> writes the characters before the first NUL.
\<close>

definition insert_string :: "string \<Rightarrow> string" where
  "insert_string s = s"

definition insert_cstr :: "string \<Rightarrow> string" where
  "insert_cstr s = takeWhile (\<lambda>c. c \<noteq> CHR 0x00) s"

subsection \<open>format\<close>

text \<open>
  \<^verbatim>\<open>
  if (isFailure()) {
      ss << "Code " << static_cast<int>(_errorCode) << ": " << ErrorTrait::codeToString(_errorCode);
      if (_message.length() > 0) { ss << " (" << _message << ")"; }
      return ss.str();
  }
  return "Success";
  \<close>
\<close>

definition format :: "'c ErrorTrait \<Rightarrow> 'c Result \<Rightarrow> string" where
  "format T r =
     (if isFailure T r then
        (let ss = ''Code '' @ insert_int (codeToInt T (errorCode r)) @ '': '' @
                  codeToString T (errorCode r);
             ss = (if length (message r) > 0 then ss @ '' ('' @ message r @ '')'' else ss)
         in ss)
      else ''Success'')"

subsection \<open>Append and the insertion operator\<close>

text \<open>
  \<^verbatim>\<open>Append<Data>::run\<close>, the primary template: the value goes through a string stream
  and the text is added to the message. The insertion of the type \<^verbatim>\<open>Data\<close> is the
  parameter \<open>ins\<close>.
\<close>

definition Append_run :: "('d \<Rightarrow> string) \<Rightarrow> 'c Result \<Rightarrow> 'd \<Rightarrow> 'c Result" where
  "Append_run ins res data = res\<lparr>message := message res @ ins data\<rparr>"

text \<open>
  \<^verbatim>\<open>Append<Result<Err> >::run\<close>, the partial specialisation, for a Result of the trait
  \<open>E\<close>:
  \<^verbatim>\<open>
  static void run(Result<ErrorTrait> &res, const Result<Err> &data)
  {
      if (not res._message.empty()) { res._message += ": "; }
      res._message += data.format();
  }
  \<close>
  Both parameters are references. \<^verbatim>\<open>data.format()\<close> reads the object behind
  \<^verbatim>\<open>data\<close> at the moment of that call, which is after the separator has been added
  to the receiver. The parameter \<open>data\<close> is therefore the referent as a function of the
  receiver's state at that moment.
\<close>

definition Append_Result_run_ref ::
  "'e ErrorTrait \<Rightarrow> 'c Result \<Rightarrow> ('c Result \<Rightarrow> 'e Result) \<Rightarrow> 'c Result" where
  "Append_Result_run_ref E res data =
     (let res = (if message res \<noteq> [] then res\<lparr>message := message res @ '': ''\<rparr> else res)
      in res\<lparr>message := message res @ format E (data res)\<rparr>)"

text \<open>
  \<open>data\<close> bound to an object other than the receiver, which is the only possibility
  when \<^verbatim>\<open>Err\<close> is not \<^verbatim>\<open>ErrorTrait\<close>: the call does not write that object, so the
  reference reads the value the object has before the call.
\<close>

definition Append_Result_run :: "'e ErrorTrait \<Rightarrow> 'c Result \<Rightarrow> 'e Result \<Rightarrow> 'c Result" where
  "Append_Result_run E res data = Append_Result_run_ref E res (\<lambda>this. data)"

text \<open>
  \<open>data\<close> bound to the receiver itself, as in \<^verbatim>\<open>r << r\<close>: the reference reads the
  receiver as it is when \<^verbatim>\<open>format\<close> is called.
\<close>

definition Append_Result_run_self :: "'c ErrorTrait \<Rightarrow> 'c Result \<Rightarrow> 'c Result" where
  "Append_Result_run_self T res = Append_Result_run_ref T res (\<lambda>this. this)"

text \<open>
  \<^verbatim>\<open>operator<<\<close>: \<^verbatim>\<open>Append<T>::run(*this, aT); return *this;\<close> with return type
  \<^verbatim>\<open>Result<ErrorTrait>\<close>, so the caller gets a copy. The template argument selects
  \<open>run\<close>. The pair is the receiver after the call and the returned temporary.
\<close>

definition op_shl :: "('c Result \<Rightarrow> 'a \<Rightarrow> 'c Result) \<Rightarrow> 'c Result \<Rightarrow> 'a \<Rightarrow> 'c Result \<times> 'c Result" where
  "op_shl run this aT = (let this = run this aT in (this, this))"

definition shl_data :: "('d \<Rightarrow> string) \<Rightarrow> 'c Result \<Rightarrow> 'd \<Rightarrow> 'c Result \<times> 'c Result" where
  "shl_data ins = op_shl (Append_run ins)"

definition shl_Result :: "'e ErrorTrait \<Rightarrow> 'c Result \<Rightarrow> 'e Result \<Rightarrow> 'c Result \<times> 'c Result" where
  "shl_Result E = op_shl (Append_Result_run E)"

text \<open>\<^verbatim>\<open>r << r\<close>: the argument \<^verbatim>\<open>aT\<close> is a reference to the receiver.\<close>

definition shl_Result_self :: "'c ErrorTrait \<Rightarrow> 'c Result \<Rightarrow> 'c Result \<times> 'c Result" where
  "shl_Result_self T r = op_shl (Append_Result_run_ref T) r (\<lambda>this. this)"

text \<open>
  The expression \<^verbatim>\<open>r << a << b\<close> parses as \<^verbatim>\<open>(r << a) << b\<close>: the second call has
  the temporary returned by the first as its receiver. The result is the receiver \<open>r\<close>
  after the statement, the first temporary after the statement, and the value of the
  expression.
\<close>

definition shl_chain ::
  "('c Result \<Rightarrow> 'a \<Rightarrow> 'c Result) \<Rightarrow> ('c Result \<Rightarrow> 'b \<Rightarrow> 'c Result) \<Rightarrow>
   'c Result \<Rightarrow> 'a \<Rightarrow> 'b \<Rightarrow> 'c Result \<times> 'c Result \<times> 'c Result" where
  "shl_chain run1 run2 r a b =
     (let (r, t1) = op_shl run1 r a;
          (t1, t2) = op_shl run2 t1 b
      in (r, t1, t2))"

subsection \<open>The translating constructor\<close>

text \<open>
  \<^verbatim>\<open>
  if (inputResult.isFailure()) { _errorCode = failureCode; *this << inputResult; }
  else { _errorCode = successCode; }
  \<close>
  The message member starts empty, the code member is assigned in either branch, and
  the value of the insertion expression is dropped. The input is an object that exists
  before the one under construction, so it is not the receiver. The default argument \<^verbatim>\<open>successCode = ErrorTrait::success\<close> is the second
  definition.
\<close>

definition Result_from :: "'e ErrorTrait \<Rightarrow> 'e Result \<Rightarrow> 'c \<Rightarrow> 'c \<Rightarrow> 'c Result" where
  "Result_from E inputResult failureCode successCode =
     (if isFailure E inputResult
      then fst (shl_Result E \<lparr>errorCode = failureCode, message = []\<rparr> inputResult)
      else \<lparr>errorCode = successCode, message = []\<rparr>)"

definition Result_from_default :: "'c ErrorTrait \<Rightarrow> 'e ErrorTrait \<Rightarrow> 'e Result \<Rightarrow> 'c \<Rightarrow> 'c Result" where
  "Result_from_default T E inputResult failureCode =
     Result_from E inputResult failureCode (success T)"

subsection \<open>The success factory\<close>

text \<open>
  \<^verbatim>\<open>static Result<ErrorTrait> success(ErrorTrait::success); return success;\<close>
  The function-local static is built on the first call and reused afterwards. The state
  is the static's storage: \<open>None\<close> before the first call. The caller gets a reference to
  const, through which the non-const \<^verbatim>\<open>operator<<\<close> cannot be called.
\<close>

definition Result_success :: "'c ErrorTrait \<Rightarrow> 'c Result option \<Rightarrow> 'c Result \<times> 'c Result option" where
  "Result_success T st =
     (case st of
        None \<Rightarrow> (let s = Result_ctor (success T) in (s, Some s))
      | Some s \<Rightarrow> (s, Some s))"

subsection \<open>Two error domains to run the operations on\<close>

text \<open>
  A file domain with \<^verbatim>\<open>enum Code { OK = 0, NOT_FOUND = 1, IO_ERROR = 2 }\<close>,
  success \<^verbatim>\<open>OK\<close> and default error \<^verbatim>\<open>IO_ERROR\<close>, and a link domain whose two
  failure codes are described as \<^verbatim>\<open>X\<close> and \<^verbatim>\<open>Y\<close>.
\<close>

datatype FileCode = OK | NOT_FOUND | IO_ERROR

fun FileCode_toString :: "FileCode \<Rightarrow> string" where
  "FileCode_toString OK = ''ok''"
| "FileCode_toString NOT_FOUND = ''not found''"
| "FileCode_toString IO_ERROR = ''io error''"

fun FileCode_toInt :: "FileCode \<Rightarrow> int" where
  "FileCode_toInt OK = 0"
| "FileCode_toInt NOT_FOUND = 1"
| "FileCode_toInt IO_ERROR = 2"

definition FileTrait :: "FileCode ErrorTrait" where
  "FileTrait = \<lparr>success = OK, defaultError = IO_ERROR,
                 codeToString = FileCode_toString, codeToInt = FileCode_toInt\<rparr>"

datatype LinkCode = LINK_UP | LINK_X | LINK_Y

fun LinkCode_toString :: "LinkCode \<Rightarrow> string" where
  "LinkCode_toString LINK_UP = ''up''"
| "LinkCode_toString LINK_X = ''X''"
| "LinkCode_toString LINK_Y = ''Y''"

fun LinkCode_toInt :: "LinkCode \<Rightarrow> int" where
  "LinkCode_toInt LINK_UP = 0"
| "LinkCode_toInt LINK_X = 1"
| "LinkCode_toInt LINK_Y = 2"

definition LinkTrait :: "LinkCode ErrorTrait" where
  "LinkTrait = \<lparr>success = LINK_UP, defaultError = LINK_Y,
                 codeToString = LinkCode_toString, codeToInt = LinkCode_toInt\<rparr>"

section \<open>Basic facts\<close>

lemma insert_int_small:
  "insert_int 0 = ''0''" "insert_int 1 = ''1''" "insert_int 2 = ''2''"
  by (simp_all add: insert_int_def digit_char_def dec_of_nat.simps)

lemma insert_int_negative: "insert_int (- 2147483648) = ''-2147483648''"
  by (simp add: insert_int_def digit_char_def dec_of_nat.simps)

lemma dec_of_nat_not_Nil: "dec_of_nat n \<noteq> []"
  by (subst dec_of_nat.simps) simp

lemma format_not_Nil: "format T r \<noteq> []"
  by (simp add: format_def Let_def)

lemma format_success: "isSuccess T r \<Longrightarrow> format T r = ''Success''"
  by (simp add: format_def isFailure_def)

lemma message_Append_run: "message (Append_run ins r d) = message r @ ins d"
  by (simp add: Append_run_def)

lemma errorCode_Append_run: "errorCode (Append_run ins r d) = errorCode r"
  by (simp add: Append_run_def)

lemma message_Append_Result_run_ref:
  "message (Append_Result_run_ref E r data) =
     message r @ (if message r \<noteq> [] then '': '' else []) @
     format E (data (r\<lparr>message := message r @ (if message r \<noteq> [] then '': '' else [])\<rparr>))"
  by (cases r) (simp add: Append_Result_run_ref_def Let_def)

lemma errorCode_Append_Result_run_ref:
  "errorCode (Append_Result_run_ref E r data) = errorCode r"
  by (simp add: Append_Result_run_ref_def Let_def)

lemma message_Append_Result_run:
  "message (Append_Result_run E r other) =
     message r @ (if message r \<noteq> [] then '': '' else []) @ format E other"
  by (simp add: Append_Result_run_def message_Append_Result_run_ref)

lemma errorCode_Append_Result_run: "errorCode (Append_Result_run E r other) = errorCode r"
  by (simp add: Append_Result_run_def errorCode_Append_Result_run_ref)

lemma message_Append_Result_run_self:
  "message (Append_Result_run_self T r) =
     message r @ (if message r \<noteq> [] then '': '' else []) @
     format T (r\<lparr>message := message r @ (if message r \<noteq> [] then '': '' else [])\<rparr>)"
  by (simp add: Append_Result_run_self_def message_Append_Result_run_ref)

lemma errorCode_Append_Result_run_self: "errorCode (Append_Result_run_self T r) = errorCode r"
  by (simp add: Append_Result_run_self_def errorCode_Append_Result_run_ref)

lemma shl_Result_self_pair:
  "shl_Result_self T r = (Append_Result_run_self T r, Append_Result_run_self T r)"
  by (simp add: shl_Result_self_def Append_Result_run_self_def op_shl_def Let_def)

lemma op_shl_pair: "op_shl run r a = (run r a, run r a)"
  by (simp add: op_shl_def Let_def)

lemma format_File_examples:
  "format FileTrait (Result_ctor NOT_FOUND) = ''Code 1: not found''"
  "format FileTrait (Append_run insert_cstr (Result_ctor NOT_FOUND) ''file.txt'') =
     ''Code 1: not found (file.txt)''"
  by (simp_all add: format_def isFailure_def isSuccess_def FileTrait_def Result_ctor_def
        Append_run_def insert_cstr_def insert_int_small Let_def)

lemma format_Link_examples:
  "format LinkTrait (Result_ctor LINK_X) = ''Code 1: X''"
  "format LinkTrait (Result_ctor LINK_Y) = ''Code 2: Y''"
  by (simp_all add: format_def isFailure_def isSuccess_def LinkTrait_def Result_ctor_def
        insert_int_small Let_def)

section \<open>The claims\<close>

text \<open>
  C1. \<open>format\<close> is a function of the trait and the Result alone. When the code equals
  the trait's success code it returns exactly the text Success. When the code differs
  it returns Code, a blank, the integer value of the code in decimal, a colon and a
  blank, and \<open>codeToString\<close> of the code; the message in parentheses after a blank
  follows if and only if the message is not empty.
\<close>

theorem format_canonical:
  "(errorCode r = success T \<longrightarrow> format T r = ''Success'') \<and>
   (errorCode r \<noteq> success T \<longrightarrow>
      format T r =
        ''Code '' @ insert_int (codeToInt T (errorCode r)) @ '': '' @
        codeToString T (errorCode r) @
        (if message r \<noteq> [] then '' ('' @ message r @ '')'' else []))"
  by (simp add: format_def isFailure_def isSuccess_def Let_def)

theorem format_canonical_witness:
  "format FileTrait \<lparr>errorCode = OK, message = ''done''\<rparr> = ''Success'' \<and>
   format FileTrait \<lparr>errorCode = NOT_FOUND, message = []\<rparr> = ''Code 1: not found'' \<and>
   format FileTrait \<lparr>errorCode = NOT_FOUND, message = ''file.txt''\<rparr> =
     ''Code 1: not found (file.txt)''"
  using format_canonical [of "\<lparr>errorCode = OK, message = ''done''\<rparr>" FileTrait]
    format_canonical [of "\<lparr>errorCode = NOT_FOUND, message = []\<rparr>" FileTrait]
    format_canonical [of "\<lparr>errorCode = NOT_FOUND, message = ''file.txt''\<rparr>" FileTrait]
  by (simp add: FileTrait_def insert_int_small)

text \<open>
  C2. The translating constructor, for an input Result of any trait \<open>E\<close> and any two
  codes of the target domain: when the input is a failure, the new code is the failure
  code and the new message is exactly the rendering of the input by \<open>format\<close>, with no
  separator in front; when the input is a success, the new code is the success code
  given (the target trait's success code when the argument is left out) and the message
  is empty.
\<close>

theorem Result_from_translates:
  "(isFailure E inputResult \<longrightarrow>
      getErrorCode (Result_from E inputResult failureCode successCode) = failureCode \<and>
      getMessage (Result_from E inputResult failureCode successCode) = format E inputResult \<and>
      Result_from_default T E inputResult failureCode =
        \<lparr>errorCode = failureCode, message = format E inputResult\<rparr>) \<and>
   (isSuccess E inputResult \<longrightarrow>
      getErrorCode (Result_from E inputResult failureCode successCode) = successCode \<and>
      getMessage (Result_from E inputResult failureCode successCode) = [] \<and>
      Result_from_default T E inputResult failureCode =
        \<lparr>errorCode = success T, message = []\<rparr>)"
  by (simp add: Result_from_def Result_from_default_def shl_Result_def op_shl_pair
      Append_Result_run_def Append_Result_run_ref_def isFailure_def getErrorCode_def
      getMessage_def Let_def)

theorem Result_from_translates_witness:
  "isFailure FileTrait (Append_run insert_cstr (Result_ctor NOT_FOUND) ''file.txt'') \<and>
   Result_from FileTrait (Append_run insert_cstr (Result_ctor NOT_FOUND) ''file.txt'')
       LINK_X LINK_Y =
     \<lparr>errorCode = LINK_X, message = ''Code 1: not found (file.txt)''\<rparr> \<and>
   isSuccess FileTrait (Result_ctor OK) \<and>
   Result_from FileTrait (Result_ctor OK) LINK_X LINK_Y = \<lparr>errorCode = LINK_Y, message = []\<rparr> \<and>
   Result_from_default LinkTrait FileTrait (Result_ctor OK) LINK_X =
     \<lparr>errorCode = LINK_UP, message = []\<rparr>"
proof -
  let ?f = "Append_run insert_cstr (Result_ctor NOT_FOUND) ''file.txt''"
  have fail: "isFailure FileTrait ?f"
    by (simp add: isFailure_def isSuccess_def FileTrait_def Append_run_def Result_ctor_def)
  have ok: "isSuccess FileTrait (Result_ctor OK)"
    by (simp add: isSuccess_def FileTrait_def Result_ctor_def)
  have "success LinkTrait = LINK_UP"
    by (simp add: LinkTrait_def)
  with fail ok
    Result_from_translates [of FileTrait ?f LINK_X LINK_Y LinkTrait]
    Result_from_translates [of FileTrait "Result_ctor OK" LINK_X LINK_Y LinkTrait]
  show ?thesis
    by (simp add: getErrorCode_def getMessage_def format_File_examples
        Result.equality)
qed

text \<open>
  A failure with a non-empty message appended to itself: the rendering that goes in
  is not the one the Result had before the call.
\<close>

lemma self_append_renders_separator:
  "isFailure T r \<Longrightarrow> message r \<noteq> [] \<Longrightarrow>
     message (Append_Result_run_self T r) \<noteq> message (Append_Result_run T r r)"
  by (simp add: message_Append_Result_run message_Append_Result_run_self format_def Let_def)

text \<open>
  C3. Appending a Result \<open>other\<close> of any trait to \<open>r\<close> adds a colon and a blank first
  if and only if the message of \<open>r\<close> is not empty, and then the text returned by the
  call of \<open>format\<close> on \<open>other\<close>. For an object other than \<open>r\<close> that text is the
  rendering of \<open>other\<close> as it is before the append. For \<open>r\<close> itself (\<^verbatim>\<open>r << r\<close>) the
  call reads the receiver after the separator has gone in, so the text is the rendering
  of \<open>r\<close> with the separator at the end of its message; it is the rendering of \<open>r\<close>
  before the append when the message of \<open>r\<close> is empty or \<open>r\<close> is a success.
  Two appends starting from an empty message give the first rendering, the separator,
  and the second rendering, whether written as two statements on \<open>r\<close> or as the value
  of \<^verbatim>\<open>r << a << b\<close>, and also when the first appended Result is \<open>r\<close> itself; with
  renderings \<^verbatim>\<open>Code 1: X\<close> and \<^verbatim>\<open>Code 2: Y\<close> the message is exactly
  \<^verbatim>\<open>Code 1: X: Code 2: Y\<close>.
\<close>

theorem Append_Result_separator:
  "message (Append_Result_run E r other) =
     message r @ (if message r \<noteq> [] then '': '' else []) @ format E other \<and>
   (message r = [] \<longrightarrow>
      message (Append_Result_run B (Append_Result_run A r a) b) =
        format A a @ '': '' @ format B b \<and>
      message (snd (snd (shl_chain (Append_Result_run A) (Append_Result_run B) r a b))) =
        format A a @ '': '' @ format B b) \<and>
   (message r = [] \<and> format A a = ''Code 1: X'' \<and> format B b = ''Code 2: Y'' \<longrightarrow>
      message (Append_Result_run B (Append_Result_run A r a) b) = ''Code 1: X: Code 2: Y'' \<and>
      message (snd (snd (shl_chain (Append_Result_run A) (Append_Result_run B) r a b))) =
        ''Code 1: X: Code 2: Y'') \<and>
   message (Append_Result_run_ref E r data) =
     message r @ (if message r \<noteq> [] then '': '' else []) @
     format E (data (r\<lparr>message := message r @ (if message r \<noteq> [] then '': '' else [])\<rparr>)) \<and>
   message (Append_Result_run_self T r) =
     message r @ (if message r \<noteq> [] then '': '' else []) @
     format T (r\<lparr>message := message r @ (if message r \<noteq> [] then '': '' else [])\<rparr>) \<and>
   message (fst (shl_Result_self T r)) = message (Append_Result_run_self T r) \<and>
   (message r = [] \<or> isSuccess T r \<longrightarrow> Append_Result_run_self T r = Append_Result_run T r r) \<and>
   (message r = [] \<longrightarrow>
      message (Append_Result_run B (Append_Result_run_self T r) b) =
        format T r @ '': '' @ format B b)"
proof -
  have self_same: "Append_Result_run_self T r = Append_Result_run T r r"
    if "message r = [] \<or> isSuccess T r"
    using that
    by (auto simp: Append_Result_run_self_def Append_Result_run_def Append_Result_run_ref_def
        Let_def format_def isFailure_def isSuccess_def)
  have chains: "message (Append_Result_run B (Append_Result_run A r a) b) =
        format A a @ '': '' @ format B b \<and>
      message (snd (snd (shl_chain (Append_Result_run A) (Append_Result_run B) r a b))) =
        format A a @ '': '' @ format B b \<and>
      message (Append_Result_run B (Append_Result_run_self T r) b) =
        format T r @ '': '' @ format B b"
    if "message r = []"
    using that
    by (cases r) (simp add: message_Append_Result_run message_Append_Result_run_self
        format_not_Nil shl_chain_def op_shl_pair)
  show ?thesis
    using self_same chains
    by (simp add: message_Append_Result_run message_Append_Result_run_ref
        message_Append_Result_run_self shl_Result_self_pair)
qed

theorem Append_Result_separator_witness:
  "message (Result_ctor IO_ERROR) = [] \<and>
   format LinkTrait (Result_ctor LINK_X) = ''Code 1: X'' \<and>
   format LinkTrait (Result_ctor LINK_Y) = ''Code 2: Y'' \<and>
   message (Append_Result_run LinkTrait
     (Append_Result_run LinkTrait (Result_ctor IO_ERROR) (Result_ctor LINK_X))
     (Result_ctor LINK_Y)) = ''Code 1: X: Code 2: Y'' \<and>
   message (Append_Result_run_self FileTrait \<lparr>errorCode = NOT_FOUND, message = ''a''\<rparr>) =
     ''a: Code 1: not found (a: )'' \<and>
   message (Append_Result_run_self FileTrait (Result_ctor OK)) = ''Success''"
proof -
  have empty: "message (Result_ctor IO_ERROR) = []"
    by (simp add: Result_ctor_def)
  let ?a = "\<lparr>errorCode = NOT_FOUND, message = ''a''\<rparr>"
  note chain = Append_Result_separator [where r = "Result_ctor IO_ERROR" and T = FileTrait
      and A = LinkTrait and a = "Result_ctor LINK_X" and B = LinkTrait
      and b = "Result_ctor LINK_Y" and E = LinkTrait and other = "Result_ctor LINK_X"
      and data = "\<lambda>this. Result_ctor LINK_X"]
  note self = Append_Result_separator [where r = ?a and T = FileTrait
      and A = LinkTrait and a = "Result_ctor LINK_X" and B = LinkTrait
      and b = "Result_ctor LINK_Y" and E = FileTrait and other = ?a
      and data = "\<lambda>this. this"]
  note ok = Append_Result_separator [where r = "Result_ctor OK" and T = FileTrait
      and A = LinkTrait and a = "Result_ctor LINK_X" and B = LinkTrait
      and b = "Result_ctor LINK_Y" and E = FileTrait and other = "Result_ctor OK"
      and data = "\<lambda>this. this"]
  have fa: "format FileTrait \<lparr>errorCode = NOT_FOUND, message = ''a: ''\<rparr> =
      ''Code 1: not found (a: )''"
    by (simp add: format_def isFailure_def isSuccess_def FileTrait_def insert_int_small)
  have fo: "format FileTrait (Result_ctor OK) = ''Success''"
    by (simp add: format_def isFailure_def isSuccess_def FileTrait_def Result_ctor_def)
  from empty format_Link_examples fa fo chain self ok show ?thesis
    by (simp add: Result_ctor_def)
qed

text \<open>
  C4. For every code \<open>c\<close>, the Result built from \<open>c\<close> holds \<open>c\<close> and an empty message;
  it is a success exactly when \<open>c\<close> is the trait's success code; \<open>isFailure\<close> is the
  negation of \<open>isSuccess\<close> on every Result; the Result built with no argument holds the
  trait's default error.
\<close>

theorem Result_ctor_classification:
  "getErrorCode (Result_ctor c) = c \<and>
   getMessage (Result_ctor c) = [] \<and>
   (isSuccess T (Result_ctor c) \<longleftrightarrow> c = success T) \<and>
   (isFailure T r \<longleftrightarrow> \<not> isSuccess T r) \<and>
   getErrorCode (Result_ctor_default T) = defaultError T \<and>
   getMessage (Result_ctor_default T) = []"
  by (simp add: Result_ctor_def Result_ctor_default_def getErrorCode_def getMessage_def
      isSuccess_def isFailure_def)

theorem Result_ctor_classification_witness:
  "getErrorCode (Result_ctor NOT_FOUND) = NOT_FOUND \<and>
   \<not> isSuccess FileTrait (Result_ctor NOT_FOUND) \<and>
   isFailure FileTrait (Result_ctor NOT_FOUND) \<and>
   isSuccess FileTrait (Result_ctor OK) \<and>
   getErrorCode (Result_ctor_default FileTrait) = IO_ERROR"
  using Result_ctor_classification [of NOT_FOUND FileTrait "Result_ctor NOT_FOUND"]
    Result_ctor_classification [of OK FileTrait "Result_ctor OK"]
  by (simp add: FileTrait_def)

text \<open>
  C5. Two Results of one domain compare equal if and only if their codes are equal. The
  messages play no part: with equal codes any two messages compare equal, and with
  different codes no choice of messages does.
\<close>

theorem op_eq_codes_only:
  "(op_eq r1 r2 \<longleftrightarrow> getErrorCode r1 = getErrorCode r2) \<and>
   op_eq \<lparr>errorCode = c, message = m1\<rparr> \<lparr>errorCode = c, message = m2\<rparr> \<and>
   (c1 \<noteq> c2 \<longrightarrow> \<not> op_eq \<lparr>errorCode = c1, message = m1\<rparr> \<lparr>errorCode = c2, message = m2\<rparr>)"
  by (simp add: op_eq_def getErrorCode_def)

theorem op_eq_codes_only_witness:
  "op_eq \<lparr>errorCode = NOT_FOUND, message = ''a''\<rparr> \<lparr>errorCode = NOT_FOUND, message = ''b''\<rparr> \<and>
   \<lparr>errorCode = NOT_FOUND, message = ''a''\<rparr> \<noteq> \<lparr>errorCode = NOT_FOUND, message = ''b''\<rparr> \<and>
   NOT_FOUND \<noteq> IO_ERROR \<and>
   \<not> op_eq \<lparr>errorCode = NOT_FOUND, message = ''a''\<rparr> \<lparr>errorCode = IO_ERROR, message = ''a''\<rparr>"
  using op_eq_codes_only [of "\<lparr>errorCode = NOT_FOUND, message = ''a''\<rparr>"
      "\<lparr>errorCode = NOT_FOUND, message = ''b''\<rparr>" NOT_FOUND "''a''" "''b''" NOT_FOUND IO_ERROR]
    op_eq_codes_only [of "\<lparr>errorCode = NOT_FOUND, message = ''a''\<rparr>"
      "\<lparr>errorCode = NOT_FOUND, message = ''b''\<rparr>" NOT_FOUND "''a''" "''a''" NOT_FOUND IO_ERROR]
  by simp

text \<open>
  C6. The success factory, called when its static object is not yet built or already
  built: the Result it returns is a success with an empty message that formats to
  Success, and a second call returns a value that compares equal to the first and also
  formats to Success. The static object, once built, stays as built.
\<close>

theorem Result_success_factory:
  assumes "st = None \<or> st = Some (Result_ctor (success T))"
  shows "isSuccess T (fst (Result_success T st)) \<and>
         getMessage (fst (Result_success T st)) = [] \<and>
         format T (fst (Result_success T st)) = ''Success'' \<and>
         op_eq (fst (Result_success T st))
               (fst (Result_success T (snd (Result_success T st)))) \<and>
         format T (fst (Result_success T (snd (Result_success T st)))) = ''Success'' \<and>
         snd (Result_success T st) = Some (Result_ctor (success T)) \<and>
         snd (Result_success T (snd (Result_success T st))) = snd (Result_success T st)"
proof -
  have ok: "isSuccess T (Result_ctor (success T))"
    by (simp add: isSuccess_def Result_ctor_def)
  have call: "Result_success T st = (Result_ctor (success T), Some (Result_ctor (success T)))"
    using assms by (auto simp: Result_success_def Let_def)
  have again: "Result_success T (Some (Result_ctor (success T))) =
      (Result_ctor (success T), Some (Result_ctor (success T)))"
    by (simp add: Result_success_def)
  show ?thesis
    unfolding call again fst_conv snd_conv
    using ok format_success [OF ok]
    by (simp add: op_eq_def getMessage_def Result_ctor_def)
qed

theorem Result_success_factory_witness:
  "fst (Result_success FileTrait None) = \<lparr>errorCode = OK, message = []\<rparr> \<and>
   isSuccess FileTrait (fst (Result_success FileTrait None)) \<and>
   format FileTrait (fst (Result_success FileTrait None)) = ''Success'' \<and>
   op_eq (fst (Result_success FileTrait None))
         (fst (Result_success FileTrait (snd (Result_success FileTrait None))))"
proof -
  have first: "fst (Result_success FileTrait None) = \<lparr>errorCode = OK, message = []\<rparr>"
    by (simp add: Result_success_def Result_ctor_def FileTrait_def Let_def)
  have unbuilt: "(None :: FileCode Result option) = None \<or>
      None = Some (Result_ctor (success FileTrait))"
    by simp
  from first Result_success_factory [OF unbuilt]
  show ?thesis
    by blast
qed

text \<open>
  C7. Every append, of a streamed value or of a Result, leaves the code as it was and
  extends the message: the message before is a prefix of the message after, so it never
  gets shorter, and the Result is a success after the append exactly when it was one
  before. This holds for the receiver of \<^verbatim>\<open>operator<<\<close> and for the copy it returns,
  also when the Result appended is the receiver itself.
\<close>

theorem append_keeps_code_extends_message:
  "errorCode (Append_run ins r d) = errorCode r \<and>
   prefix (message r) (message (Append_run ins r d)) \<and>
   length (message r) \<le> length (message (Append_run ins r d)) \<and>
   (isSuccess T (Append_run ins r d) \<longleftrightarrow> isSuccess T r) \<and>
   errorCode (Append_Result_run E r other) = errorCode r \<and>
   prefix (message r) (message (Append_Result_run E r other)) \<and>
   length (message r) \<le> length (message (Append_Result_run E r other)) \<and>
   (isSuccess T (Append_Result_run E r other) \<longleftrightarrow> isSuccess T r) \<and>
   errorCode (Append_Result_run_self T r) = errorCode r \<and>
   prefix (message r) (message (Append_Result_run_self T r)) \<and>
   length (message r) \<le> length (message (Append_Result_run_self T r)) \<and>
   (isSuccess T (Append_Result_run_self T r) \<longleftrightarrow> isSuccess T r) \<and>
   (\<forall>p \<in> {shl_data ins r d, shl_Result E r other, shl_Result_self T r}.
      errorCode (fst p) = errorCode r \<and> prefix (message r) (message (fst p)) \<and>
      errorCode (snd p) = errorCode r \<and> prefix (message r) (message (snd p)) \<and>
      (isSuccess T (fst p) \<longleftrightarrow> isSuccess T r) \<and> (isSuccess T (snd p) \<longleftrightarrow> isSuccess T r) \<and>
      (isFailure T (fst p) \<longleftrightarrow> isFailure T r) \<and> (isFailure T (snd p) \<longleftrightarrow> isFailure T r))"
  by (simp add: message_Append_run errorCode_Append_run message_Append_Result_run
      errorCode_Append_Result_run message_Append_Result_run_self
      errorCode_Append_Result_run_self isSuccess_def isFailure_def shl_data_def
      shl_Result_def shl_Result_self_pair op_shl_pair)

theorem append_keeps_code_extends_message_witness:
  "fst (shl_data insert_cstr \<lparr>errorCode = NOT_FOUND, message = ''open''\<rparr> '' file.txt'') =
     \<lparr>errorCode = NOT_FOUND, message = ''open file.txt''\<rparr> \<and>
   prefix ''open''
     (message (fst (shl_data insert_cstr \<lparr>errorCode = NOT_FOUND, message = ''open''\<rparr>
        '' file.txt''))) \<and>
   prefix ''open''
     (message (fst (shl_Result LinkTrait \<lparr>errorCode = NOT_FOUND, message = ''open''\<rparr>
        (Result_ctor LINK_X)))) \<and>
   prefix ''open''
     (message (fst (shl_Result_self FileTrait \<lparr>errorCode = NOT_FOUND, message = ''open''\<rparr>)))"
proof -
  let ?r = "\<lparr>errorCode = NOT_FOUND, message = ''open''\<rparr>"
  have run: "fst (shl_data insert_cstr ?r '' file.txt'') =
      \<lparr>errorCode = NOT_FOUND, message = ''open file.txt''\<rparr>"
    by (simp add: shl_data_def op_shl_pair Append_run_def insert_cstr_def)
  have "prefix (message ?r) (message (fst (shl_data insert_cstr ?r '' file.txt''))) \<and>
      prefix (message ?r) (message (fst (shl_Result LinkTrait ?r (Result_ctor LINK_X)))) \<and>
      prefix (message ?r) (message (fst (shl_Result_self FileTrait ?r)))"
    using append_keeps_code_extends_message
      [of insert_cstr ?r "'' file.txt''" FileTrait LinkTrait "Result_ctor LINK_X"]
    by blast
  with run show ?thesis
    by simp
qed

text \<open>
  C8. Appending a Result that is a success is not skipped: the text Success is added to
  the message, after a colon and a blank when the message was not empty, both in the
  receiver and in the returned copy. The same holds when a success is appended to
  itself.
\<close>

theorem append_success_Result:
  "isSuccess E s \<Longrightarrow>
     message (Append_Result_run E r s) =
       message r @ (if message r \<noteq> [] then '': '' else []) @ ''Success'' \<and>
     message (fst (shl_Result E r s)) =
       message r @ (if message r \<noteq> [] then '': '' else []) @ ''Success'' \<and>
     message (snd (shl_Result E r s)) =
       message r @ (if message r \<noteq> [] then '': '' else []) @ ''Success'' \<and>
     (isSuccess T r \<longrightarrow>
        message (fst (shl_Result_self T r)) =
          message r @ (if message r \<noteq> [] then '': '' else []) @ ''Success'' \<and>
        message (snd (shl_Result_self T r)) =
          message r @ (if message r \<noteq> [] then '': '' else []) @ ''Success'')"
  by (simp add: message_Append_Result_run message_Append_Result_run_self format_success
      isSuccess_def shl_Result_def shl_Result_self_pair op_shl_pair)

theorem append_success_Result_witness:
  "isSuccess LinkTrait (Result_ctor LINK_UP) \<and>
   message (fst (shl_Result LinkTrait \<lparr>errorCode = IO_ERROR, message = ''read''\<rparr>
     (Result_ctor LINK_UP))) = ''read: Success'' \<and>
   message (fst (shl_Result LinkTrait \<lparr>errorCode = IO_ERROR, message = []\<rparr>
     (Result_ctor LINK_UP))) = ''Success'' \<and>
   isSuccess FileTrait \<lparr>errorCode = OK, message = ''read''\<rparr> \<and>
   message (fst (shl_Result_self FileTrait \<lparr>errorCode = OK, message = ''read''\<rparr>)) =
     ''read: Success''"
proof -
  have up: "isSuccess LinkTrait (Result_ctor LINK_UP)"
    by (simp add: isSuccess_def LinkTrait_def Result_ctor_def)
  have ok: "isSuccess FileTrait \<lparr>errorCode = OK, message = ''read''\<rparr>"
    by (simp add: isSuccess_def FileTrait_def)
  from up ok
    append_success_Result [OF up, where r = "\<lparr>errorCode = IO_ERROR, message = ''read''\<rparr>"
      and T = FileTrait]
    append_success_Result [OF up, where r = "\<lparr>errorCode = IO_ERROR, message = []\<rparr>"
      and T = FileTrait]
    append_success_Result [OF up, where r = "\<lparr>errorCode = OK, message = ''read''\<rparr>"
      and T = FileTrait]
  show ?thesis
    by simp
qed

text \<open>
  C9. Appending the empty string as a streamed value changes nothing: the receiver and
  the returned copy are the Result as it was, with the same code, message and
  rendering. The empty string is the literal \<^verbatim>\<open>""\<close> (an array holding only the
  terminator, or a pointer to one) or an empty \<^verbatim>\<open>std::string\<close>.
\<close>

theorem append_empty_string_identity:
  "shl_data insert_cstr r [] = (r, r) \<and>
   shl_data insert_cstr r [CHR 0x00] = (r, r) \<and>
   shl_data insert_string r [] = (r, r) \<and>
   errorCode (fst (shl_data insert_cstr r [CHR 0x00])) = errorCode r \<and>
   message (fst (shl_data insert_cstr r [CHR 0x00])) = message r \<and>
   format T (fst (shl_data insert_cstr r [CHR 0x00])) = format T r"
  by (simp add: shl_data_def op_shl_pair Append_run_def insert_cstr_def insert_string_def)

theorem append_empty_string_identity_witness:
  "shl_data insert_cstr \<lparr>errorCode = NOT_FOUND, message = ''file.txt''\<rparr> [CHR 0x00] =
     (\<lparr>errorCode = NOT_FOUND, message = ''file.txt''\<rparr>,
      \<lparr>errorCode = NOT_FOUND, message = ''file.txt''\<rparr>)"
  using append_empty_string_identity [of "\<lparr>errorCode = NOT_FOUND, message = ''file.txt''\<rparr>"]
  by blast

text \<open>
  C10. A call of \<^verbatim>\<open>operator<<\<close> changes the receiver and returns a copy with the code
  and message the receiver has after the change. In \<^verbatim>\<open>r << a << b\<close> the second call
  works on the copy returned by the first, which holds the first append; the value of
  the expression holds both appends, in order.
\<close>

theorem op_shl_copy_cumulative:
  "fst (op_shl run r a) = run r a \<and>
   snd (op_shl run r a) = fst (op_shl run r a) \<and>
   errorCode (snd (op_shl run r a)) = errorCode (fst (op_shl run r a)) \<and>
   message (snd (op_shl run r a)) = message (fst (op_shl run r a)) \<and>
   shl_chain run1 run2 r a b = (run1 r a, run2 (run1 r a) b, run2 (run1 r a) b) \<and>
   message (snd (snd (shl_chain (Append_run ins1) (Append_run ins2) r a b))) =
     message r @ ins1 a @ ins2 b \<and>
   errorCode (snd (snd (shl_chain (Append_run ins1) (Append_run ins2) r a b))) = errorCode r \<and>
   message (snd (snd (shl_chain (Append_run ins1) (Append_Result_run E) r a e))) =
     message r @ ins1 a @ (if message r @ ins1 a \<noteq> [] then '': '' else []) @ format E e"
  by (simp add: op_shl_pair shl_chain_def message_Append_run errorCode_Append_run
      message_Append_Result_run)

theorem op_shl_copy_cumulative_witness:
  "shl_chain (Append_run insert_cstr) (Append_run insert_int)
     \<lparr>errorCode = IO_ERROR, message = ''read''\<rparr> '' at '' 2 =
   (\<lparr>errorCode = IO_ERROR, message = ''read at ''\<rparr>,
    \<lparr>errorCode = IO_ERROR, message = ''read at 2''\<rparr>,
    \<lparr>errorCode = IO_ERROR, message = ''read at 2''\<rparr>)"
  using op_shl_copy_cumulative [where run = "Append_run insert_cstr"
      and r = "\<lparr>errorCode = IO_ERROR, message = ''read''\<rparr>" and a = "'' at ''"
      and ?run1.0 = "Append_run insert_cstr" and ?run2.0 = "Append_run insert_int" and b = 2
      and ?ins1.0 = insert_cstr and ?ins2.0 = insert_int and E = LinkTrait
      and e = "Result_ctor LINK_X"]
  by (simp add: Append_run_def insert_cstr_def insert_int_small)

end
